theory Spec2Isabelle
  imports Complex_Main "HOL-Library.Sublist"
begin

section \<open>Data model (types.ts)\<close>

text \<open>
  The field geometry and text layout of the certificate generator. The component
  \<open>CertificateGenerator\<close> is the second part of \<open>src/TemplateUpload.tsx\<close>, the component
  \<open>FieldDesigner\<close> the second part of \<open>src/StepIndicator.tsx\<close>, and the types are in
  \<open>src/unnamed/part_000\<close>. Where both components define a function of the same name, the
  one of \<open>FieldDesigner\<close> has the suffix \<open>_designer\<close> here. A variable of the source whose
  name is a constant of the theory carries a prime (\<open>id'\<close>, \<open>fields'\<close>, \<open>x'\<close>).

  A JavaScript \<open>number\<close> is modelled as a \<open>real\<close>: arithmetic is exact, and the
  non-finite values (\<open>NaN\<close>, \<open>Infinity\<close>) and rounding of IEEE doubles are outside the
  model. A division whose divisor may be zero is therefore only meaningful under the
  hypothesis that the divisor is non-zero, and the theorems below say so.
  A JavaScript string is a \<open>string\<close>, the list of its code units.

  The field \<open>id\<close> of \<open>TextField\<close> is called \<open>id_field\<close> here (\<open>id\<close> is the identity
  function of HOL); the fields \<open>width\<close> and \<open>height\<close> of \<open>Template\<close> are called
  \<open>template_width\<close> and \<open>template_height\<close>, to keep them apart from those of
  \<open>TextField\<close>. The template's sizes come from \<open>img.naturalWidth\<close> and
  \<open>img.naturalHeight\<close> (TemplateUpload), which are unsigned integers.
\<close>

datatype align = AlignLeft | AlignCenter | AlignRight

record TextField =
  id_field :: string
  label :: string
  x :: real
  y :: real
  width :: real
  height :: real
  fontSize :: real
  fontFamily :: string
  color :: string
  align :: align
  autoWidth :: bool

type_synonym CertificateData = "string \<rightharpoonup> string"

record Template =
  template_url :: string
  template_width :: nat
  template_height :: nat

text \<open>
  \<open>Partial<TextField>\<close>: every key may be absent. \<open>{ ...field, ...updates }\<close> copies the
  field and overwrites the keys that the patch has.
\<close>

record TextFieldPatch =
  upd_id :: "string option"
  upd_label :: "string option"
  upd_x :: "real option"
  upd_y :: "real option"
  upd_width :: "real option"
  upd_height :: "real option"
  upd_fontSize :: "real option"
  upd_fontFamily :: "string option"
  upd_color :: "string option"
  upd_align :: "align option"
  upd_autoWidth :: "bool option"

definition no_updates :: TextFieldPatch where
  "no_updates = \<lparr>upd_id = None, upd_label = None, upd_x = None, upd_y = None,
     upd_width = None, upd_height = None, upd_fontSize = None, upd_fontFamily = None,
     upd_color = None, upd_align = None, upd_autoWidth = None\<rparr>"

definition or_else :: "'a option \<Rightarrow> 'a \<Rightarrow> 'a" where
  "or_else v d = (case v of None \<Rightarrow> d | Some w \<Rightarrow> w)"

definition spread :: "TextField \<Rightarrow> TextFieldPatch \<Rightarrow> TextField" where
  "spread field updates =
     \<lparr>id_field = or_else (upd_id updates) (id_field field),
      label = or_else (upd_label updates) (label field),
      x = or_else (upd_x updates) (x field),
      y = or_else (upd_y updates) (y field),
      width = or_else (upd_width updates) (width field),
      height = or_else (upd_height updates) (height field),
      fontSize = or_else (upd_fontSize updates) (fontSize field),
      fontFamily = or_else (upd_fontFamily updates) (fontFamily field),
      color = or_else (upd_color updates) (color field),
      align = or_else (upd_align updates) (align field),
      autoWidth = or_else (upd_autoWidth updates) (autoWidth field)\<rparr>"

text \<open>
  Truthiness of an optional patch value, as \<open>updates.fontSize || updates.fontFamily ||
  updates.label\<close> tests it: an absent key, the number \<open>0\<close> and the empty string are falsy.
\<close>

definition truthy_number :: "real option \<Rightarrow> bool" where
  "truthy_number v = (case v of None \<Rightarrow> False | Some n \<Rightarrow> n \<noteq> 0)"

definition truthy_string :: "string option \<Rightarrow> bool" where
  "truthy_string v = (case v of None \<Rightarrow> False | Some s \<Rightarrow> s \<noteq> [])"

text \<open>\<open>certificateData[key] || ''\<close>: a missing key and an empty value both give \<open>''\<close>.\<close>

definition row_text :: "CertificateData \<Rightarrow> string \<Rightarrow> string" where
  "row_text certificateData key = (case certificateData key of None \<Rightarrow> [] | Some v \<Rightarrow> v)"

text \<open>\<open>data[i]\<close>: \<open>undefined\<close> beyond the end of the array.\<close>

definition at_index :: "'a list \<Rightarrow> nat \<Rightarrow> 'a option" where
  "at_index xs i = (if i < length xs then Some (xs ! i) else None)"

section \<open>Text metrics\<close>

text \<open>
  The canvas of the browser is not code of this program: \<open>ctx.measureText(text).width\<close>
  under \<open>ctx.font = `${fontSize}px ${fontFamily}`\<close> is a parameter of the model, a function
  of the font size, the font family and the text.
\<close>

type_synonym measureText = "real \<Rightarrow> string \<Rightarrow> string \<Rightarrow> real"

text \<open>
  \<open>calculateTextWidth\<close>, the same text in CertificateGenerator and in FieldDesigner:
  \<open>Math.ceil(metrics.width) + 20\<close>.
\<close>

definition calculateTextWidth :: "measureText \<Rightarrow> string \<Rightarrow> real \<Rightarrow> string \<Rightarrow> real" where
  "calculateTextWidth m text fontSize' fontFamily' =
     real_of_int \<lceil>m fontSize' fontFamily' text\<rceil> + 20"

text \<open>\<open>getEffectiveWidth\<close> of CertificateGenerator; the data row is optional.\<close>

definition getEffectiveWidth :: "measureText \<Rightarrow> TextField \<Rightarrow> CertificateData option \<Rightarrow> real" where
  "getEffectiveWidth m field certificateData =
     (case certificateData of
        None \<Rightarrow> width field
      | Some row \<Rightarrow>
          if autoWidth field then
            (let text = row_text row (label field) in
             if text \<noteq> [] then calculateTextWidth m text (fontSize field) (fontFamily field)
             else width field)
          else width field)"

section \<open>FieldDesigner: placeholder text, effective width, field update\<close>

text \<open>
  \<open>toLowerCase\<close> maps the letters A to Z to a to z; other code units are left as they are
  (the model's characters are bytes, so lower-casing beyond ASCII is outside the model).
  \<open>includes_str\<close> is \<open>String.prototype.includes\<close>: the needle occurs at some position.
\<close>

definition toLowerCase :: "string \<Rightarrow> string" where
  "toLowerCase s =
     map (\<lambda>c. let n = (of_char c :: nat) in
               if 65 \<le> n \<and> n \<le> 90 then char_of (n + 32) else c) s"

fun includes_str :: "string \<Rightarrow> string \<Rightarrow> bool" where
  "includes_str [] needle = (needle = [])"
| "includes_str (c # cs) needle = (prefix needle (c # cs) \<or> includes_str cs needle)"

definition getDummyText :: "string \<Rightarrow> string" where
  "getDummyText label' =
     (let lowerLabel = toLowerCase label' in
      if includes_str lowerLabel ''name'' then ''John Smith''
      else if includes_str lowerLabel ''course'' then ''Web Development''
      else if includes_str lowerLabel ''date'' then ''2024-01-15''
      else if includes_str lowerLabel ''grade'' then ''A+''
      else if includes_str lowerLabel ''instructor'' then ''Dr. Johnson''
      else if includes_str lowerLabel ''institution'' then ''Tech Academy''
      else if includes_str lowerLabel ''score'' then ''95%''
      else if includes_str lowerLabel ''duration'' then ''6 months''
      else if includes_str lowerLabel ''certificate'' then ''Certificate of Completion''
      else ''Sample Text'')"

definition getEffectiveWidth_designer :: "measureText \<Rightarrow> TextField \<Rightarrow> real" where
  "getEffectiveWidth_designer m field =
     (if autoWidth field then
        (let dummyText = getDummyText (label field) in
         calculateTextWidth m dummyText (fontSize field) (fontFamily field))
      else width field)"

text \<open>
  \<open>updateField\<close> of FieldDesigner: \<open>fields.map(...)\<close>, handed to \<open>onFieldsChange\<close>; the
  model returns the new collection.
\<close>

definition updateField_designer ::
  "measureText \<Rightarrow> string \<Rightarrow> TextFieldPatch \<Rightarrow> TextField list \<Rightarrow> TextField list" where
  "updateField_designer m id' updates fields' =
     map (\<lambda>field.
       if id_field field = id' then
         (let updatedField = spread field updates;
              updatedField =
                (if upd_autoWidth updates = Some True then
                   (let dummyText = getDummyText (label updatedField) in
                    updatedField\<lparr>width := calculateTextWidth m dummyText
                      (fontSize updatedField) (fontFamily updatedField)\<rparr>)
                 else updatedField);
              updatedField =
                (if autoWidth updatedField \<and>
                    (truthy_number (upd_fontSize updates) \<or> truthy_string (upd_fontFamily updates)
                     \<or> truthy_string (upd_label updates)) then
                   (let dummyText = getDummyText (label updatedField) in
                    updatedField\<lparr>width := calculateTextWidth m dummyText
                      (fontSize updatedField) (fontFamily updatedField)\<rparr>)
                 else updatedField)
          in updatedField)
       else field) fields'"

section \<open>CertificateGenerator: field update\<close>

text \<open>
  \<open>updateField\<close> of CertificateGenerator: \<open>setEditableFields(prev => prev.map(...))\<close>, with
  the component's \<open>data\<close> and \<open>previewIndex\<close>.
\<close>

definition updateField ::
  "measureText \<Rightarrow> CertificateData list \<Rightarrow> nat \<Rightarrow> string \<Rightarrow> TextFieldPatch \<Rightarrow>
   TextField list \<Rightarrow> TextField list" where
  "updateField m data previewIndex id' updates prev =
     map (\<lambda>field.
       if id_field field = id' then
         (let updatedField = spread field updates;
              updatedField =
                (case at_index data previewIndex of
                   None \<Rightarrow> updatedField
                 | Some row \<Rightarrow>
                     if upd_autoWidth updates = Some True then
                       (let text = row_text row (label updatedField) in
                        if text \<noteq> [] then
                          updatedField\<lparr>width := calculateTextWidth m text
                            (fontSize updatedField) (fontFamily updatedField)\<rparr>
                        else updatedField)
                     else updatedField);
              updatedField =
                (case at_index data previewIndex of
                   None \<Rightarrow> updatedField
                 | Some row \<Rightarrow>
                     if autoWidth updatedField \<and>
                        (truthy_number (upd_fontSize updates)
                         \<or> truthy_string (upd_fontFamily updates)
                         \<or> truthy_string (upd_label updates)) then
                       (let text = row_text row (label updatedField) in
                        if text \<noteq> [] then
                          updatedField\<lparr>width := calculateTextWidth m text
                            (fontSize updatedField) (fontFamily updatedField)\<rparr>
                        else updatedField)
                     else updatedField)
          in updatedField)
       else field) prev"

section \<open>Pointer drags\<close>

text \<open>
  The state of a drag (\<open>selectedField\<close>, \<open>isDragging\<close>, \<open>dragOffset\<close>), the bounding
  rectangle of the displayed element (\<open>getBoundingClientRect()\<close>; \<open>left\<close>, \<open>top\<close>, \<open>width\<close>
  and \<open>height\<close> are called \<open>rect_left\<close> and so on), the canvas element with its pixel
  size, and the mouse event.
\<close>

record DragState =
  selectedField :: "string option"
  isDragging :: bool
  dragOffset :: "real \<times> real"

record DOMRect =
  rect_left :: real
  rect_top :: real
  rect_width :: real
  rect_height :: real

record CanvasElement =
  canvas_width :: nat
  canvas_height :: nat
  canvas_rect :: DOMRect

record MouseEvent =
  clientX :: real
  clientY :: real

text \<open>
  The pointer in template pixels, as \<open>handleMouseMove\<close> of CertificateGenerator computes
  \<open>relativeX\<close> and \<open>relativeY\<close> from the canvas and its bounding rectangle.
\<close>

definition relativePosition :: "CanvasElement \<Rightarrow> MouseEvent \<Rightarrow> real \<times> real" where
  "relativePosition canvas e =
     (let canvasRect = canvas_rect canvas;
          scaleX = real (canvas_width canvas) / rect_width canvasRect;
          scaleY = real (canvas_height canvas) / rect_height canvasRect;
          relativeX = (clientX e - rect_left canvasRect) * scaleX;
          relativeY = (clientY e - rect_top canvasRect) * scaleY
      in (relativeX, relativeY))"

text \<open>
  \<open>handleMouseMove\<close> of CertificateGenerator. \<open>containerRef\<close> says whether
  \<open>containerRef.current\<close> is set, \<open>canvasRef\<close> is \<open>canvasRef.current\<close>. \<open>!selectedField\<close>
  holds for \<open>null\<close> and for the empty string.
\<close>

definition handleMouseMove ::
  "measureText \<Rightarrow> CertificateData list \<Rightarrow> nat \<Rightarrow> Template \<Rightarrow> DragState \<Rightarrow> bool \<Rightarrow>
   CanvasElement option \<Rightarrow> MouseEvent \<Rightarrow> TextField list \<Rightarrow> TextField list" where
  "handleMouseMove m data previewIndex template st containerRef canvasRef e editableFields =
     (if \<not> isDragging st \<or> \<not> truthy_string (selectedField st) \<or> \<not> containerRef
      then editableFields
      else
        (case canvasRef of
           None \<Rightarrow> editableFields
         | Some canvas \<Rightarrow>
             (let (relativeX, relativeY) = relativePosition canvas e;
                  x' = max 0 (min (real (template_width template) - 50)
                                  (relativeX - fst (dragOffset st)));
                  y' = max 0 (min (real (template_height template) - 20)
                                  (relativeY - snd (dragOffset st)))
              in updateField m data previewIndex (or_else (selectedField st) [])
                   (no_updates\<lparr>upd_x := Some x', upd_y := Some y'\<rparr>) editableFields)))"

text \<open>
  \<open>handleMouseMove\<close> of FieldDesigner: the scale is taken from the template's size and the
  bounding rectangle of the displayed image (\<open>imageRef.current\<close>).
\<close>

definition handleMouseMove_designer ::
  "measureText \<Rightarrow> Template \<Rightarrow> DragState \<Rightarrow> bool \<Rightarrow> DOMRect option \<Rightarrow> MouseEvent \<Rightarrow>
   TextField list \<Rightarrow> TextField list" where
  "handleMouseMove_designer m template st containerRef imageRef e fields' =
     (if \<not> isDragging st \<or> \<not> truthy_string (selectedField st) \<or> \<not> containerRef
      then fields'
      else
        (case imageRef of
           None \<Rightarrow> fields'
         | Some imageRect \<Rightarrow>
             (let scaleX = real (template_width template) / rect_width imageRect;
                  scaleY = real (template_height template) / rect_height imageRect;
                  relativeX = (clientX e - rect_left imageRect) * scaleX;
                  relativeY = (clientY e - rect_top imageRect) * scaleY;
                  x' = max 0 (min (real (template_width template) - 50)
                                  (relativeX - fst (dragOffset st)));
                  y' = max 0 (min (real (template_height template) - 20)
                                  (relativeY - snd (dragOffset st)))
              in updateField_designer m (or_else (selectedField st) [])
                   (no_updates\<lparr>upd_x := Some x', upd_y := Some y'\<rparr>) fields')))"

text \<open>
  \<open>renderEditOverlay\<close> of CertificateGenerator places one box per field over the canvas:
  the style's \<open>left\<close>, \<open>top\<close>, \<open>width\<close> and \<open>height\<close>, relative to the overlay, which covers
  the canvas. \<open>overlayPosition\<close> is the \<open>left\<close> and \<open>top\<close> of a template position.
\<close>

definition overlayPosition :: "CanvasElement \<Rightarrow> real \<times> real \<Rightarrow> real \<times> real" where
  "overlayPosition canvas p =
     (let canvasRect = canvas_rect canvas;
          scaleX = rect_width canvasRect / real (canvas_width canvas);
          scaleY = rect_height canvasRect / real (canvas_height canvas)
      in (fst p * scaleX, snd p * scaleY))"

record OverlayBox =
  box_left :: real
  box_top :: real
  box_width :: real
  box_height :: real

definition renderEditOverlay ::
  "measureText \<Rightarrow> CertificateData list \<Rightarrow> nat \<Rightarrow> bool \<Rightarrow> CanvasElement option \<Rightarrow>
   TextField list \<Rightarrow> OverlayBox list option" where
  "renderEditOverlay m data previewIndex isEditMode canvasRef editableFields =
     (if \<not> isEditMode then None
      else
        (case canvasRef of
           None \<Rightarrow> None
         | Some canvas \<Rightarrow>
             (let canvasRect = canvas_rect canvas;
                  scaleX = rect_width canvasRect / real (canvas_width canvas);
                  scaleY = rect_height canvasRect / real (canvas_height canvas)
              in Some (map (\<lambda>field.
                   let effectiveWidth = getEffectiveWidth m field (at_index data previewIndex)
                   in \<lparr>box_left = fst (overlayPosition canvas (x field, y field)),
                       box_top = snd (overlayPosition canvas (x field, y field)),
                       box_width = effectiveWidth * scaleX,
                       box_height = height field * scaleY\<rparr>) editableFields))))"

section \<open>Rendering\<close>

text \<open>
  What a render leaves on a canvas: its pixel size, the template image drawn by
  \<open>ctx.drawImage(img, 0, 0, template.width, template.height)\<close>, and the \<open>ctx.fillText\<close>
  calls in order, each with the font (\<open>`${field.fontSize}px ${field.fontFamily}`\<close>, kept
  as the pair of its parts), the fill style and the text alignment set before it, its text
  and its anchor. Encoding the surface as a PNG blob is not modelled: a blob is the surface.
\<close>

record FillText =
  ft_font :: "real \<times> string"
  ft_fillStyle :: string
  ft_textAlign :: align
  ft_text :: string
  ft_x :: real
  ft_y :: real

record Surface =
  surface_width :: nat
  surface_height :: nat
  surface_image :: "string \<times> real \<times> real \<times> real \<times> real"
  surface_texts :: "FillText list"

type_synonym Blob = Surface

text \<open>
  \<open>generateCertificateImage\<close>: the promise resolves in \<open>img.onload\<close>, and there is no
  \<open>onerror\<close>; \<open>imageLoads\<close> says whether the template image loads. \<open>None\<close> is the promise
  that never settles.
\<close>

definition generateCertificateImage ::
  "measureText \<Rightarrow> Template \<Rightarrow> TextField list \<Rightarrow> bool \<Rightarrow> CertificateData \<Rightarrow> Blob option" where
  "generateCertificateImage m template editableFields imageLoads certificateData =
     (if imageLoads then
        Some \<lparr>surface_width = template_width template,
              surface_height = template_height template,
              surface_image = (template_url template, 0, 0,
                               real (template_width template), real (template_height template)),
              surface_texts = map (\<lambda>field.
                let text = row_text certificateData (label field);
                    effectiveWidth = getEffectiveWidth m field (Some certificateData);
                    x' = (if align field = AlignCenter then x field + effectiveWidth / 2
                          else if align field = AlignRight then x field + effectiveWidth
                          else x field);
                    y' = y field + height field / 2 + fontSize field / 3
                in \<lparr>ft_font = (fontSize field, fontFamily field), ft_fillStyle = color field,
                    ft_textAlign = align field, ft_text = text, ft_x = x', ft_y = y'\<rparr>)
                editableFields\<rparr>
      else None)"

text \<open>
  \<open>renderPreview\<close> draws the row \<open>data[previewIndex]\<close> on the component's canvas. Without
  a canvas it returns at once; while the image has not loaded nothing is drawn; with no row
  at \<open>previewIndex\<close>, reading \<open>certificateData[field.label]\<close> for the first field throws.
\<close>

datatype PreviewOutcome = NoCanvas | ImagePending | TypeError | Drawn Surface

definition renderPreview ::
  "measureText \<Rightarrow> Template \<Rightarrow> TextField list \<Rightarrow> CertificateData list \<Rightarrow> nat \<Rightarrow> bool \<Rightarrow>
   bool \<Rightarrow> PreviewOutcome" where
  "renderPreview m template editableFields data previewIndex canvasRef imageLoads =
     (if \<not> canvasRef then NoCanvas
      else if \<not> imageLoads then ImagePending
      else
        (case at_index data previewIndex of
           None \<Rightarrow>
             if editableFields = [] then
               Drawn \<lparr>surface_width = template_width template,
                      surface_height = template_height template,
                      surface_image = (template_url template, 0, 0,
                        real (template_width template), real (template_height template)),
                      surface_texts = []\<rparr>
             else TypeError
         | Some certificateData \<Rightarrow>
             Drawn \<lparr>surface_width = template_width template,
                    surface_height = template_height template,
                    surface_image = (template_url template, 0, 0,
                      real (template_width template), real (template_height template)),
                    surface_texts = map (\<lambda>field.
                      let text = row_text certificateData (label field);
                          effectiveWidth = getEffectiveWidth m field (Some certificateData);
                          x' = (if align field = AlignCenter then x field + effectiveWidth / 2
                                else if align field = AlignRight then x field + effectiveWidth
                                else x field);
                          y' = y field + height field / 2 + fontSize field / 3
                      in \<lparr>ft_font = (fontSize field, fontFamily field),
                          ft_fillStyle = color field, ft_textAlign = align field,
                          ft_text = text, ft_x = x', ft_y = y'\<rparr>)
                      editableFields\<rparr>))"

section \<open>Batch export\<close>

text \<open>
  \<open>fileName.replace(/[^a-zA-Z0-9-_]/g, '_')\<close>: every code unit that is not a letter, a
  digit, a hyphen or an underscore becomes an underscore.
\<close>

definition safe_char :: "char \<Rightarrow> bool" where
  "safe_char c =
     (let n = (of_char c :: nat) in
      (97 \<le> n \<and> n \<le> 122) \<or> (65 \<le> n \<and> n \<le> 90) \<or> (48 \<le> n \<and> n \<le> 57)
      \<or> c = CHR ''-'' \<or> c = CHR ''_'')"

definition sanitize :: "string \<Rightarrow> string" where
  "sanitize fileName = map (\<lambda>c. if safe_char c then c else CHR ''_'') fileName"

text \<open>The decimal digits of a number, as the template literal \<open>`certificate-${i + 1}`\<close> writes it.\<close>

fun decimal :: "nat \<Rightarrow> string" where
  "decimal n =
     (if n < 10 then [char_of (48 + n)]
      else decimal (n div 10) @ [char_of (48 + n mod 10)])"

declare decimal.simps [simp del]

text \<open>
  \<open>editableFields[0]?.label\<close> used as a property key: with no field it is \<open>undefined\<close>,
  which as a key is the string \<open>undefined\<close>.
\<close>

definition titleKey :: "TextField list \<Rightarrow> string" where
  "titleKey editableFields = (case editableFields of [] \<Rightarrow> ''undefined'' | f # _ \<Rightarrow> label f)"

definition fileNameOf :: "TextField list \<Rightarrow> CertificateData \<Rightarrow> nat \<Rightarrow> string" where
  "fileNameOf editableFields certificateData i =
     (let v = row_text certificateData (titleKey editableFields) in
      if v \<noteq> [] then v else ''certificate-'' @ decimal (i + 1))"

text \<open>
  JSZip is a library, not code of this program. An archive is the list of its entries,
  name and content, in the order in which the names were first added; \<open>zip.file(name,
  data)\<close> sets the entry of that name and replaces an entry that has the same name.
\<close>

type_synonym JSZip = "(string \<times> Blob) list"

fun zip_file :: "string \<Rightarrow> Blob \<Rightarrow> JSZip \<Rightarrow> JSZip" where
  "zip_file name blob [] = [(name, blob)]"
| "zip_file name blob (entry # rest) =
     (if fst entry = name then (name, blob) # rest else entry # zip_file name blob rest)"

text \<open>
  The state that \<open>generateAllCertificates\<close> works on: \<open>isGenerating\<close> and \<open>generatedCount\<close>
  of the component, the archive being filled, the download handed to \<open>saveAs\<close>, and
  whether the promise of the asynchronous function has settled. The function has no
  \<open>try\<close>, and nothing rejects: its promise is fulfilled or stays pending.
\<close>

record ExportState =
  isGenerating :: bool
  generatedCount :: nat
  zip_files :: JSZip
  saved :: "(JSZip \<times> string) option"
  settled :: bool

text \<open>
  The \<open>for\<close> loop from index \<open>i\<close> on. \<open>loads i\<close> says whether the template image loads for
  row \<open>i\<close>. The result is the state and whether the loop ran to its end; it does not when
  an \<open>await\<close> never resumes.
\<close>

function exportLoop ::
  "measureText \<Rightarrow> Template \<Rightarrow> TextField list \<Rightarrow> (nat \<Rightarrow> bool) \<Rightarrow> CertificateData list \<Rightarrow>
   nat \<Rightarrow> ExportState \<Rightarrow> ExportState \<times> bool" where
  "exportLoop m template editableFields loads data i st =
     (if i < length data then
        (let certificateData = data ! i in
         case generateCertificateImage m template editableFields (loads i) certificateData of
           None \<Rightarrow> (st, False)
         | Some blob \<Rightarrow>
             (let fileName = fileNameOf editableFields certificateData i;
                  sanitizedFileName = sanitize fileName
              in exportLoop m template editableFields loads data (i + 1)
                   (st\<lparr>zip_files := zip_file (sanitizedFileName @ ''.png'') blob (zip_files st),
                       generatedCount := i + 1\<rparr>)))
      else (st, True))"
  by pat_completeness auto
termination
  by (relation "measure (\<lambda>(m, template, editableFields, loads, data, i, st). length data - i)")
     auto

declare exportLoop.simps [simp del]

definition generateAllCertificates ::
  "measureText \<Rightarrow> Template \<Rightarrow> TextField list \<Rightarrow> (nat \<Rightarrow> bool) \<Rightarrow> CertificateData list \<Rightarrow>
   ExportState" where
  "generateAllCertificates m template editableFields loads data =
     (let st = \<lparr>isGenerating = True, generatedCount = 0, zip_files = [], saved = None,
                settled = False\<rparr>;
          (st', completed) = exportLoop m template editableFields loads data 0 st
      in if completed then
           st'\<lparr>saved := Some (zip_files st', ''certificates.zip''), isGenerating := False,
               settled := True\<rparr>
         else st')"

section \<open>Example values\<close>

text \<open>
  Two fields as \<open>addField\<close> creates them (ids \<open>field-...\<close>, font Arial, colour black),
  the second one auto-width, a template of 1000 by 600 pixels, and a canvas that measures
  a text as 0.525 times the font size for each of its code units.
\<close>

definition example_fields :: "TextField list" where
  "example_fields =
     [\<lparr>id_field = ''field-1'', label = ''Name'', x = 100, y = 100, width = 300, height = 40,
       fontSize = 24, fontFamily = ''Arial'', color = ''#000000'', align = AlignCenter,
       autoWidth = False\<rparr>,
      \<lparr>id_field = ''field-2'', label = ''Course'', x = 100, y = 200, width = 209, height = 40,
       fontSize = 24, fontFamily = ''Arial'', color = ''#000000'', align = AlignLeft,
       autoWidth = True\<rparr>]"

definition example_template :: Template where
  "example_template =
     \<lparr>template_url = ''blob:template'', template_width = 1000, template_height = 600\<rparr>"

definition example_measure :: measureText where
  "example_measure fontSize' fontFamily' text = real (length text) * fontSize' * 21 / 40"

definition example_canvas :: CanvasElement where
  "example_canvas =
     \<lparr>canvas_width = 1000, canvas_height = 600,
      canvas_rect = \<lparr>rect_left = 10, rect_top = 20, rect_width = 500, rect_height = 300\<rparr>\<rparr>"

definition example_drag :: DragState where
  "example_drag = \<lparr>selectedField = Some ''field-1'', isDragging = True, dragOffset = (10, 5)\<rparr>"

section \<open>Text metrics: theorems\<close>

text \<open>
  Claim C6. For every text, font size and font family, \<open>calculateTextWidth\<close> returns the
  measured width plus the padding 20, rounded up to an integer; the result is an integer;
  and for the empty string, which the canvas measures as 0, it is the padding alone, 20,
  which is not negative.
\<close>

theorem C6_calculateTextWidth:
  "calculateTextWidth m text fs ff = real_of_int \<lceil>m fs ff text + 20\<rceil>
   \<and> calculateTextWidth m text fs ff \<in> \<int>
   \<and> (m fs ff [] = 0 \<longrightarrow>
        calculateTextWidth m [] fs ff = 20 \<and> 0 \<le> calculateTextWidth m [] fs ff)"
proof -
  have "\<lceil>m fs ff text + 20\<rceil> = \<lceil>m fs ff text\<rceil> + 20"
    using ceiling_add_of_int [of "m fs ff text" 20] by simp
  then show ?thesis
    by (simp add: calculateTextWidth_def)
qed

theorem C6_calculateTextWidth_witness:
  "calculateTextWidth (\<lambda>fs ff t. real (length t) * 21 / 2) ''Ann'' 24 ''Arial'' = 52
   \<and> calculateTextWidth (\<lambda>fs ff t. real (length t) * 21 / 2) [] 24 ''Arial'' = 20"
  using C6_calculateTextWidth [of "\<lambda>fs ff t. real (length t) * 21 / 2" "''Ann''" 24 "''Arial''"]
  by simp

section \<open>Effective width: theorems\<close>

text \<open>
  Claim C1, as stated, at a text whose measured width is not an integer: with a canvas
  that measures every text as 10.5, the effective width of an auto-width field bound to
  \<open>Ann\<close> is 31, not the measured width plus 20, which is 30.5.
\<close>

theorem C1_counterexample:
  "getEffectiveWidth (\<lambda>fs ff t. 21 / 2)
     \<lparr>id_field = ''field-1'', label = ''Name'', x = 100, y = 100, width = 300, height = 40,
      fontSize = 24, fontFamily = ''Arial'', color = ''#000000'', align = AlignCenter,
      autoWidth = True\<rparr>
     (Some [''Name'' \<mapsto> ''Ann''])
   \<noteq> (\<lambda>fs ff t. 21 / 2) 24 ''Arial'' ''Ann'' + 20"
  by (simp add: getEffectiveWidth_def row_text_def calculateTextWidth_def)

text \<open>
  Claim C1, amended. \<open>getEffectiveWidth\<close> is the field's \<open>width\<close> whenever \<open>autoWidth\<close> is
  off, or no row is given, or the text bound to the field's label is empty or missing;
  and whenever \<open>autoWidth\<close> is on and the bound text is not empty, it is
  \<open>calculateTextWidth\<close> of that text, the field's font size and font family, that is,
  the measured width rounded up to an integer, plus 20.
\<close>

theorem C1_getEffectiveWidth:
  "(\<not> autoWidth field \<or> certificateData = None
      \<or> (\<exists>row. certificateData = Some row \<and> row_text row (label field) = [])
    \<longrightarrow> getEffectiveWidth m field certificateData = width field)
   \<and> (autoWidth field \<and> certificateData = Some row \<and> row_text row (label field) \<noteq> []
    \<longrightarrow> getEffectiveWidth m field certificateData
          = calculateTextWidth m (row_text row (label field)) (fontSize field) (fontFamily field)
      \<and> getEffectiveWidth m field certificateData
          = real_of_int \<lceil>m (fontSize field) (fontFamily field) (row_text row (label field))\<rceil> + 20)"
  by (auto simp: getEffectiveWidth_def calculateTextWidth_def Let_def split: option.splits)

theorem C1_getEffectiveWidth_witness:
  "getEffectiveWidth (\<lambda>fs ff t. 21 / 2)
     \<lparr>id_field = ''field-1'', label = ''Name'', x = 100, y = 100, width = 300, height = 40,
      fontSize = 24, fontFamily = ''Arial'', color = ''#000000'', align = AlignCenter,
      autoWidth = True\<rparr>
     (Some [''Name'' \<mapsto> ''Ann'']) = 31
   \<and> getEffectiveWidth (\<lambda>fs ff t. 21 / 2)
     \<lparr>id_field = ''field-1'', label = ''Name'', x = 100, y = 100, width = 300, height = 40,
      fontSize = 24, fontFamily = ''Arial'', color = ''#000000'', align = AlignCenter,
      autoWidth = False\<rparr>
     (Some [''Name'' \<mapsto> ''Ann'']) = 300"
  using C1_getEffectiveWidth [where m = "\<lambda>fs ff t. 21 / 2" and row = "[''Name'' \<mapsto> ''Ann'']"
      and certificateData = "Some [''Name'' \<mapsto> ''Ann'']"
      and field = "\<lparr>id_field = ''field-1'', label = ''Name'', x = 100, y = 100, width = 300,
        height = 40, fontSize = 24, fontFamily = ''Arial'', color = ''#000000'',
        align = AlignCenter, autoWidth = True\<rparr>"]
    C1_getEffectiveWidth [where m = "\<lambda>fs ff t. 21 / 2" and row = "[''Name'' \<mapsto> ''Ann'']"
      and certificateData = "Some [''Name'' \<mapsto> ''Ann'']"
      and field = "\<lparr>id_field = ''field-1'', label = ''Name'', x = 100, y = 100, width = 300,
        height = 40, fontSize = 24, fontFamily = ''Arial'', color = ''#000000'',
        align = AlignCenter, autoWidth = False\<rparr>"]
  by (simp add: row_text_def)

section \<open>Text anchors: theorems\<close>

text \<open>
  Claim C2. For every field collection and data row, the export render
  (\<open>generateCertificateImage\<close>) and the preview render (\<open>renderPreview\<close>, when the row is
  the one at \<open>previewIndex\<close>) produce the same surface, with one \<open>fillText\<close> call per field,
  in order, whose anchor is: \<open>x\<close> for \<open>left\<close>, \<open>x + effectiveWidth / 2\<close> for \<open>center\<close>,
  \<open>x + effectiveWidth\<close> for \<open>right\<close>, and \<open>y + height / 2 + fontSize / 3\<close> vertically.
\<close>

theorem C2_anchor:
  assumes "at_index data previewIndex = Some certificateData"
  shows "\<exists>s. generateCertificateImage m template editableFields True certificateData = Some s
     \<and> renderPreview m template editableFields data previewIndex True True = Drawn s
     \<and> length (surface_texts s) = length editableFields
     \<and> (\<forall>i < length editableFields.
          ft_x (surface_texts s ! i) =
            (case align (editableFields ! i) of
               AlignLeft \<Rightarrow> x (editableFields ! i)
             | AlignCenter \<Rightarrow> x (editableFields ! i)
                 + getEffectiveWidth m (editableFields ! i) (Some certificateData) / 2
             | AlignRight \<Rightarrow> x (editableFields ! i)
                 + getEffectiveWidth m (editableFields ! i) (Some certificateData))
          \<and> ft_y (surface_texts s ! i) =
              y (editableFields ! i) + height (editableFields ! i) / 2
              + fontSize (editableFields ! i) / 3
          \<and> ft_textAlign (surface_texts s ! i) = align (editableFields ! i)
          \<and> ft_text (surface_texts s ! i) = row_text certificateData (label (editableFields ! i)))"
  using assms
  by (auto simp: generateCertificateImage_def renderPreview_def Let_def split: align.splits)

theorem C2_anchor_witness:
  "at_index [ [''Name'' \<mapsto> ''Ann''] ] 0 = Some [''Name'' \<mapsto> ''Ann'']
   \<and> (\<exists>s. renderPreview (\<lambda>fs ff t. 30)
          \<lparr>template_url = ''blob:t'', template_width = 1000, template_height = 600\<rparr>
          [\<lparr>id_field = ''field-1'', label = ''Name'', x = 100, y = 100, width = 50,
            height = 40, fontSize = 24, fontFamily = ''Arial'', color = ''#000000'',
            align = AlignCenter, autoWidth = False\<rparr>]
          [ [''Name'' \<mapsto> ''Ann''] ] 0 True True = Drawn s
        \<and> ft_x (surface_texts s ! 0) = 125 \<and> ft_y (surface_texts s ! 0) = 128)"
proof -
  have h: "at_index [ [''Name'' \<mapsto> ''Ann''] ] 0 = Some [''Name'' \<mapsto> ''Ann'']"
    by (simp add: at_index_def)
  from C2_anchor [OF h, where m = "\<lambda>fs ff t. 30"
      and template = "\<lparr>template_url = ''blob:t'', template_width = 1000, template_height = 600\<rparr>"
      and editableFields = "[\<lparr>id_field = ''field-1'', label = ''Name'', x = 100, y = 100,
            width = 50, height = 40, fontSize = 24, fontFamily = ''Arial'', color = ''#000000'',
            align = AlignCenter, autoWidth = False\<rparr>]"]
  show ?thesis using h
    by (auto simp: getEffectiveWidth_def)
qed

section \<open>Field update: frame\<close>

lemma spread_id_field:
  "upd_id updates = None \<Longrightarrow> id_field (spread field updates) = id_field field"
  by (simp add: spread_def or_else_def)

lemma updateField_nth:
  "i < length prev \<Longrightarrow> id_field (prev ! i) \<noteq> id' \<Longrightarrow>
   updateField m data previewIndex id' updates prev ! i = prev ! i"
  by (simp add: updateField_def)

lemma updateField_designer_nth:
  "i < length fs \<Longrightarrow> id_field (fs ! i) \<noteq> id' \<Longrightarrow>
   updateField_designer m id' updates fs ! i = fs ! i"
  by (simp add: updateField_designer_def)

lemma updateField_id_field:
  "upd_id updates = None \<Longrightarrow>
   map id_field (updateField m data previewIndex id' updates prev) = map id_field prev"
  by (induction prev)
     (auto simp: updateField_def Let_def spread_id_field split: option.splits)

lemma updateField_designer_id_field:
  "upd_id updates = None \<Longrightarrow>
   map id_field (updateField_designer m id' updates fs) = map id_field fs"
  by (induction fs) (auto simp: updateField_designer_def Let_def spread_id_field)

text \<open>
  Claim C10. For every field collection, id and patch without an \<open>id\<close> key, both
  \<open>updateField\<close> functions keep the length of the collection and the id at every position
  (so the order, and the target's own id), leave every field whose id is not the target
  as it is, and leave the whole collection as it is when no field has the id.
\<close>

theorem C10_updateField_frame:
  assumes "upd_id updates = None"
  shows "length (updateField m data previewIndex id' updates prev) = length prev
     \<and> map id_field (updateField m data previewIndex id' updates prev) = map id_field prev
     \<and> (\<forall>i < length prev. id_field (prev ! i) \<noteq> id' \<longrightarrow>
           updateField m data previewIndex id' updates prev ! i = prev ! i)
     \<and> ((\<forall>f \<in> set prev. id_field f \<noteq> id') \<longrightarrow>
           updateField m data previewIndex id' updates prev = prev)
     \<and> length (updateField_designer m id' updates prev) = length prev
     \<and> map id_field (updateField_designer m id' updates prev) = map id_field prev
     \<and> (\<forall>i < length prev. id_field (prev ! i) \<noteq> id' \<longrightarrow>
           updateField_designer m id' updates prev ! i = prev ! i)
     \<and> ((\<forall>f \<in> set prev. id_field f \<noteq> id') \<longrightarrow>
           updateField_designer m id' updates prev = prev)"
proof -
  have 1: "length (updateField m data previewIndex id' updates prev) = length prev"
    by (simp add: updateField_def)
  have 2: "length (updateField_designer m id' updates prev) = length prev"
    by (simp add: updateField_designer_def)
  have 3: "(\<forall>f \<in> set prev. id_field f \<noteq> id') \<longrightarrow>
           updateField m data previewIndex id' updates prev = prev"
    by (auto simp: updateField_def intro: map_idI)
  have 4: "(\<forall>f \<in> set prev. id_field f \<noteq> id') \<longrightarrow>
           updateField_designer m id' updates prev = prev"
    by (auto simp: updateField_designer_def intro: map_idI)
  show ?thesis
    using 1 2 3 4 updateField_id_field [OF assms] updateField_designer_id_field [OF assms]
      updateField_nth updateField_designer_nth
    by presburger
qed

theorem C10_updateField_frame_witness:
  "upd_id (no_updates\<lparr>upd_fontSize := Some 30\<rparr>) = None
   \<and> updateField (\<lambda>fs ff t. 30) [] 0 ''field-2'' (no_updates\<lparr>upd_fontSize := Some 30\<rparr>)
        example_fields ! 0 = example_fields ! 0
   \<and> map id_field (updateField_designer (\<lambda>fs ff t. 30) ''field-2''
        (no_updates\<lparr>upd_fontSize := Some 30\<rparr>) example_fields) = [''field-1'', ''field-2'']
   \<and> updateField (\<lambda>fs ff t. 30) [] 0 ''field-3'' (no_updates\<lparr>upd_fontSize := Some 30\<rparr>)
        example_fields = example_fields"
proof -
  have h: "upd_id (no_updates\<lparr>upd_fontSize := Some 30\<rparr>) = None"
    by (simp add: no_updates_def)
  have l: "(0::nat) < length example_fields" "id_field (example_fields ! 0) \<noteq> ''field-2''"
    "\<forall>f \<in> set example_fields. id_field f \<noteq> ''field-3''"
    "map id_field example_fields = [''field-1'', ''field-2'']"
    by (simp_all add: example_fields_def)
  show ?thesis
    using h l C10_updateField_frame [OF h, of "\<lambda>fs ff t. 30" "[]" 0 "''field-2''" example_fields]
      C10_updateField_frame [OF h, of "\<lambda>fs ff t. 30" "[]" 0 "''field-3''" example_fields]
    by metis
qed

section \<open>Pointer drags: theorems\<close>

lemma spread_position:
  "spread field (no_updates\<lparr>upd_x := Some a, upd_y := Some b\<rparr>) = field\<lparr>x := a, y := b\<rparr>"
  by (simp add: spread_def no_updates_def or_else_def)

lemma updateField_position:
  assumes "i < length prev" and "id_field (prev ! i) = sel"
  shows "updateField m data previewIndex sel (no_updates\<lparr>upd_x := Some a, upd_y := Some b\<rparr>) prev ! i
         = (prev ! i)\<lparr>x := a, y := b\<rparr>"
proof -
  have "upd_autoWidth (no_updates\<lparr>upd_x := Some a, upd_y := Some b\<rparr>) = None"
    and "\<not> truthy_number (upd_fontSize (no_updates\<lparr>upd_x := Some a, upd_y := Some b\<rparr>))"
    and "\<not> truthy_string (upd_fontFamily (no_updates\<lparr>upd_x := Some a, upd_y := Some b\<rparr>))"
    and "\<not> truthy_string (upd_label (no_updates\<lparr>upd_x := Some a, upd_y := Some b\<rparr>))"
    by (simp_all add: no_updates_def truthy_number_def truthy_string_def)
  then show ?thesis
    using assms by (simp add: updateField_def Let_def spread_position split: option.splits)
qed

lemma updateField_designer_position:
  assumes "i < length prev" and "id_field (prev ! i) = sel"
  shows "updateField_designer m sel (no_updates\<lparr>upd_x := Some a, upd_y := Some b\<rparr>) prev ! i
         = (prev ! i)\<lparr>x := a, y := b\<rparr>"
proof -
  have "upd_autoWidth (no_updates\<lparr>upd_x := Some a, upd_y := Some b\<rparr>) = None"
    and "\<not> truthy_number (upd_fontSize (no_updates\<lparr>upd_x := Some a, upd_y := Some b\<rparr>))"
    and "\<not> truthy_string (upd_fontFamily (no_updates\<lparr>upd_x := Some a, upd_y := Some b\<rparr>))"
    and "\<not> truthy_string (upd_label (no_updates\<lparr>upd_x := Some a, upd_y := Some b\<rparr>))"
    by (simp_all add: no_updates_def truthy_number_def truthy_string_def)
  then show ?thesis
    using assms by (simp add: updateField_designer_def Let_def spread_position)
qed

lemma clamp_bounds:
  fixes v :: real
  shows "0 \<le> max 0 (min (real n - c) v)"
    and "0 \<le> c \<Longrightarrow> max 0 (min (real n - c) v) \<le> real n"
    and "c \<le> real n \<Longrightarrow> max 0 (min (real n - c) v) \<le> real n - c"
  by auto

text \<open>
  Claim C4. While a field is being dragged (\<open>isDragging\<close>, a selected id, the container and
  the displayed element present, the displayed element of non-zero size), a pointer move
  sets the position of the selected field to the pointer's template position minus the
  drag offset, with \<open>x\<close> clamped by \<open>Math.max(0, Math.min(template.width - 50, ...))\<close> and
  \<open>y\<close> by \<open>Math.max(0, Math.min(template.height - 20, ...))\<close>, and changes nothing else of
  the field. The new position lies in \<open>[0, template.width] \<times> [0, template.height]\<close>, and in
  \<open>[0, template.width - 50] \<times> [0, template.height - 20]\<close> when the template is at least 50
  by 20. This holds in CertificateGenerator and in FieldDesigner.
\<close>

theorem C4_handleMouseMove_clamp:
  assumes "isDragging st" and "selectedField st = Some sel" and "sel \<noteq> []" and "containerRef"
    and "rect_width (canvas_rect canvas) \<noteq> 0" and "rect_height (canvas_rect canvas) \<noteq> 0"
    and "rect_width imageRect \<noteq> 0" and "rect_height imageRect \<noteq> 0"
    and "i < length editableFields" and "id_field (editableFields ! i) = sel"
    and "moved = handleMouseMove m data previewIndex template st containerRef (Some canvas) e
                   editableFields ! i"
    and "moved' = handleMouseMove_designer m template st containerRef (Some imageRect) e
                    editableFields ! i"
    and "img = \<lparr>canvas_width = template_width template,
                   canvas_height = template_height template, canvas_rect = imageRect\<rparr>"
  shows "moved = (editableFields ! i)
            \<lparr>x := max 0 (min (real (template_width template) - 50)
                     (fst (relativePosition canvas e) - fst (dragOffset st))),
             y := max 0 (min (real (template_height template) - 20)
                     (snd (relativePosition canvas e) - snd (dragOffset st)))\<rparr>
     \<and> moved' = (editableFields ! i)
            \<lparr>x := max 0 (min (real (template_width template) - 50)
                     (fst (relativePosition img e) - fst (dragOffset st))),
             y := max 0 (min (real (template_height template) - 20)
                     (snd (relativePosition img e) - snd (dragOffset st)))\<rparr>
     \<and> 0 \<le> x moved \<and> x moved \<le> real (template_width template)
     \<and> 0 \<le> y moved \<and> y moved \<le> real (template_height template)
     \<and> 0 \<le> x moved' \<and> x moved' \<le> real (template_width template)
     \<and> 0 \<le> y moved' \<and> y moved' \<le> real (template_height template)
     \<and> (50 \<le> template_width template \<longrightarrow>
          x moved \<le> real (template_width template) - 50
          \<and> x moved' \<le> real (template_width template) - 50)
     \<and> (20 \<le> template_height template \<longrightarrow>
          y moved \<le> real (template_height template) - 20
          \<and> y moved' \<le> real (template_height template) - 20)"
proof -
  have sel: "truthy_string (selectedField st)" "or_else (selectedField st) [] = sel"
    using assms(2,3) by (simp_all add: truthy_string_def or_else_def)
  have g: "moved = (editableFields ! i)
            \<lparr>x := max 0 (min (real (template_width template) - 50)
                     (fst (relativePosition canvas e) - fst (dragOffset st))),
             y := max 0 (min (real (template_height template) - 20)
                     (snd (relativePosition canvas e) - snd (dragOffset st)))\<rparr>"
    using assms(1,4,9,10) sel unfolding assms(11)
    by (simp add: handleMouseMove_def Let_def split_beta updateField_position)
  have d: "moved' = (editableFields ! i)
            \<lparr>x := max 0 (min (real (template_width template) - 50)
                     (fst (relativePosition img e) - fst (dragOffset st))),
             y := max 0 (min (real (template_height template) - 20)
                     (snd (relativePosition img e) - snd (dragOffset st)))\<rparr>"
    using assms(1,4,9,10) sel unfolding assms(12,13)
    by (simp add: handleMouseMove_designer_def relativePosition_def Let_def
        updateField_designer_position)
  have gx: "0 \<le> x moved" "x moved \<le> real (template_width template)"
    "50 \<le> template_width template \<longrightarrow> x moved \<le> real (template_width template) - 50"
    unfolding g by auto
  have gy: "0 \<le> y moved" "y moved \<le> real (template_height template)"
    "20 \<le> template_height template \<longrightarrow> y moved \<le> real (template_height template) - 20"
    unfolding g by auto
  have dx: "0 \<le> x moved'" "x moved' \<le> real (template_width template)"
    "50 \<le> template_width template \<longrightarrow> x moved' \<le> real (template_width template) - 50"
    unfolding d by auto
  have dy: "0 \<le> y moved'" "y moved' \<le> real (template_height template)"
    "20 \<le> template_height template \<longrightarrow> y moved' \<le> real (template_height template) - 20"
    unfolding d by auto
  show ?thesis
    using g d gx gy dx dy by blast
qed

theorem C4_handleMouseMove_clamp_witness:
  "x (handleMouseMove example_measure [] 0 example_template example_drag True
        (Some example_canvas) \<lparr>clientX = 600, clientY = 0\<rparr> example_fields ! 0) = 950
   \<and> y (handleMouseMove example_measure [] 0 example_template example_drag True
        (Some example_canvas) \<lparr>clientX = 600, clientY = 0\<rparr> example_fields ! 0) = 0
   \<and> x (handleMouseMove_designer example_measure example_template example_drag True
        (Some (canvas_rect example_canvas)) \<lparr>clientX = 600, clientY = 0\<rparr> example_fields ! 0)
       = 950"
proof -
  have h: "isDragging example_drag" "selectedField example_drag = Some ''field-1''"
    "''field-1'' \<noteq> []" "True"
    "rect_width (canvas_rect example_canvas) \<noteq> 0" "rect_height (canvas_rect example_canvas) \<noteq> 0"
    "rect_width (canvas_rect example_canvas) \<noteq> 0" "rect_height (canvas_rect example_canvas) \<noteq> 0"
    "0 < length example_fields" "id_field (example_fields ! 0) = ''field-1''"
    by (simp_all add: example_drag_def example_canvas_def example_fields_def)
  have p: "relativePosition example_canvas \<lparr>clientX = 600, clientY = 0\<rparr> = (1180, - 40)"
    "relativePosition \<lparr>canvas_width = 1000, canvas_height = 600,
        canvas_rect = canvas_rect example_canvas\<rparr> \<lparr>clientX = 600, clientY = 0\<rparr> = (1180, - 40)"
    "dragOffset example_drag = (10, 5)" "template_width example_template = 1000"
    "template_height example_template = 600"
    by (simp_all add: relativePosition_def example_canvas_def example_drag_def
        example_template_def)
  show ?thesis
    using C4_handleMouseMove_clamp [where m = example_measure and data = "[]"
        and previewIndex = 0 and template = example_template
        and e = "\<lparr>clientX = 600, clientY = 0\<rparr>", OF h refl refl refl]
    by (simp add: p)
qed

section \<open>Coordinate transform: theorems\<close>

text \<open>
  Claim C5, as stated, at a display rectangle whose origin is not the origin of the
  viewport: the canvas of 1000 by 600 pixels shown at 500 by 300 with its corner at
  (10, 20), and the pointer at (110, 120), inside the rectangle. The template position is
  (200, 200); the overlay position of that is (100, 100), not the pointer's (110, 120).
  Every number here is an integer and every quotient is exact.
\<close>

theorem C5_counterexample:
  "relativePosition example_canvas \<lparr>clientX = 110, clientY = 120\<rparr> = (200, 200)
   \<and> overlayPosition example_canvas
         (relativePosition example_canvas \<lparr>clientX = 110, clientY = 120\<rparr>) = (100, 100)
   \<and> overlayPosition example_canvas
         (relativePosition example_canvas \<lparr>clientX = 110, clientY = 120\<rparr>) \<noteq> (110, 120)"
  by (simp add: relativePosition_def overlayPosition_def example_canvas_def)

text \<open>
  Claim C5, amended. For every pointer position, and every canvas whose bounding rectangle
  and pixel size have non-zero width and height, the template-to-display transform of
  \<open>renderEditOverlay\<close> applied to the display-to-template transform of \<open>handleMouseMove\<close>
  returns the pointer position relative to the origin of the display rectangle:
  \<open>(clientX - left, clientY - top)\<close>, exactly, numbers being reals. So the overlay box of
  a field whose position is the pointer's template position has that \<open>left\<close> and \<open>top\<close>.
\<close>

theorem C5_transform_round_trip:
  assumes "rect_width (canvas_rect canvas) \<noteq> 0" and "rect_height (canvas_rect canvas) \<noteq> 0"
    and "canvas_width canvas \<noteq> 0" and "canvas_height canvas \<noteq> 0"
  shows "overlayPosition canvas (relativePosition canvas e)
         = (clientX e - rect_left (canvas_rect canvas), clientY e - rect_top (canvas_rect canvas))
     \<and> (\<forall>i < length editableFields.
          (x (editableFields ! i), y (editableFields ! i)) = relativePosition canvas e \<longrightarrow>
          (\<exists>boxes. renderEditOverlay m data previewIndex True (Some canvas) editableFields
                    = Some boxes
             \<and> box_left (boxes ! i) = clientX e - rect_left (canvas_rect canvas)
             \<and> box_top (boxes ! i) = clientY e - rect_top (canvas_rect canvas)))"
proof -
  have p: "overlayPosition canvas (relativePosition canvas e)
         = (clientX e - rect_left (canvas_rect canvas), clientY e - rect_top (canvas_rect canvas))"
    using assms by (simp add: relativePosition_def overlayPosition_def Let_def)
  show ?thesis
    using p by (simp add: renderEditOverlay_def Let_def)
qed

theorem C5_transform_round_trip_witness:
  "overlayPosition example_canvas (relativePosition example_canvas \<lparr>clientX = 60, clientY = 70\<rparr>)
   = (60 - 10, 70 - 20)
   \<and> (\<exists>boxes. renderEditOverlay example_measure [] 0 True (Some example_canvas) example_fields
                = Some boxes
         \<and> box_left (boxes ! 0) = 50 \<and> box_top (boxes ! 0) = 50)"
proof -
  have h: "rect_width (canvas_rect example_canvas) \<noteq> 0"
    "rect_height (canvas_rect example_canvas) \<noteq> 0"
    "canvas_width example_canvas \<noteq> 0" "canvas_height example_canvas \<noteq> 0"
    by (simp_all add: example_canvas_def)
  have r: "rect_left (canvas_rect example_canvas) = 10" "rect_top (canvas_rect example_canvas) = 20"
    by (simp_all add: example_canvas_def)
  have f: "0 < length example_fields"
    "(x (example_fields ! 0), y (example_fields ! 0))
     = relativePosition example_canvas \<lparr>clientX = 60, clientY = 70\<rparr>"
    by (simp_all add: example_fields_def relativePosition_def example_canvas_def)
  show ?thesis
    using C5_transform_round_trip [OF h, of "\<lparr>clientX = 60, clientY = 70\<rparr>" example_fields
        example_measure "[]" 0] f
    unfolding r by simp
qed

section \<open>Field update: recomputing the width\<close>

lemma getDummyText_examples:
  "getDummyText ''Name'' = ''John Smith''"
  "getDummyText ''Course'' = ''Web Development''"
  "getDummyText [] = ''Sample Text''"
  by code_simp+

text \<open>
  Claim C3, as stated, in CertificateGenerator: the field \<open>Name\<close> of width 300 gets
  \<open>autoWidth\<close> switched on while the preview row has no value for \<open>Name\<close>. The field becomes
  auto-width, but its width stays 300: it is neither the measurement of the row's (empty)
  text, 20, nor that of a placeholder for \<open>Name\<close>, 146.
\<close>

theorem C3_counterexample:
  "width (updateField example_measure [ [''Course'' \<mapsto> ''Maths''] ] 0 ''field-1''
            (no_updates\<lparr>upd_autoWidth := Some True\<rparr>) example_fields ! 0) = 300
   \<and> autoWidth (updateField example_measure [ [''Course'' \<mapsto> ''Maths''] ] 0 ''field-1''
            (no_updates\<lparr>upd_autoWidth := Some True\<rparr>) example_fields ! 0)
   \<and> calculateTextWidth example_measure (row_text [''Course'' \<mapsto> ''Maths''] ''Name'') 24 ''Arial''
       = 20
   \<and> calculateTextWidth example_measure (getDummyText ''Name'') 24 ''Arial'' = 146"
  by (simp add: updateField_def example_fields_def at_index_def no_updates_def spread_def
      or_else_def row_text_def truthy_number_def truthy_string_def calculateTextWidth_def
      example_measure_def getDummyText_examples)

text \<open>
  Claim C3, amended. Let the patch set \<open>autoWidth\<close> to true, or let \<open>autoWidth\<close> be true
  after the patch and the patch set \<open>fontSize\<close> to a non-zero number or \<open>fontFamily\<close> or
  \<open>label\<close> to a non-empty string. Then for a field with the target id:
  in FieldDesigner, \<open>updateField\<close> stores as \<open>width\<close> the measurement of the placeholder
  text for the new label, in the new font;
  in CertificateGenerator, when the preview row exists and its value for the new label is
  not empty, \<open>updateField\<close> stores as \<open>width\<close> the measurement of that value in the new
  font; when there is no preview row, or its value for the new label is empty or missing,
  the width is not recomputed and the field is the patched field.
\<close>

theorem C3_updateField_recompute:
  assumes "i < length prev" and "id_field (prev ! i) = id'"
    and "u = spread (prev ! i) updates"
    and "upd_autoWidth updates = Some True
         \<or> autoWidth u \<and> (truthy_number (upd_fontSize updates)
              \<or> truthy_string (upd_fontFamily updates) \<or> truthy_string (upd_label updates))"
  shows "updateField_designer m id' updates prev ! i
         = u\<lparr>width := calculateTextWidth m (getDummyText (label u)) (fontSize u) (fontFamily u)\<rparr>
     \<and> (\<forall>row. at_index data previewIndex = Some row \<and> row_text row (label u) \<noteq> [] \<longrightarrow>
          updateField m data previewIndex id' updates prev ! i
          = u\<lparr>width := calculateTextWidth m (row_text row (label u)) (fontSize u) (fontFamily u)\<rparr>)
     \<and> (at_index data previewIndex = None
          \<or> (\<exists>row. at_index data previewIndex = Some row \<and> row_text row (label u) = []) \<longrightarrow>
          updateField m data previewIndex id' updates prev ! i = u)"
proof -
  have d: "updateField_designer m id' updates prev ! i
         = u\<lparr>width := calculateTextWidth m (getDummyText (label u)) (fontSize u) (fontFamily u)\<rparr>"
    using assms by (auto simp: updateField_designer_def Let_def)
  have g1: "at_index data previewIndex = Some row \<Longrightarrow> row_text row (label u) \<noteq> [] \<Longrightarrow>
          updateField m data previewIndex id' updates prev ! i
          = u\<lparr>width := calculateTextWidth m (row_text row (label u)) (fontSize u) (fontFamily u)\<rparr>"
    for row
    using assms by (auto simp: updateField_def Let_def)
  have g2: "at_index data previewIndex = None \<Longrightarrow>
          updateField m data previewIndex id' updates prev ! i = u"
    using assms by (auto simp: updateField_def Let_def)
  have g3: "at_index data previewIndex = Some row \<Longrightarrow> row_text row (label u) = [] \<Longrightarrow>
          updateField m data previewIndex id' updates prev ! i = u" for row
    using assms by (auto simp: updateField_def Let_def)
  show ?thesis
    using d g1 g2 g3 by blast
qed

theorem C3_updateField_recompute_witness:
  "width (updateField_designer example_measure ''field-2'' (no_updates\<lparr>upd_fontSize := Some 30\<rparr>)
            example_fields ! 1) = 257
   \<and> width (updateField example_measure [ [''Name'' \<mapsto> ''Ann''] ] 0 ''field-1''
            (no_updates\<lparr>upd_autoWidth := Some True\<rparr>) example_fields ! 0) = 58
   \<and> width (updateField example_measure [] 0 ''field-1''
            (no_updates\<lparr>upd_autoWidth := Some True\<rparr>) example_fields ! 0) = 300"
proof -
  have a: "1 < length example_fields" "id_field (example_fields ! 1) = ''field-2''"
    "0 < length example_fields" "id_field (example_fields ! 0) = ''field-1''"
    by (simp_all add: example_fields_def)
  have t1: "upd_autoWidth (no_updates\<lparr>upd_fontSize := Some 30\<rparr>) = Some True
         \<or> autoWidth (spread (example_fields ! 1) (no_updates\<lparr>upd_fontSize := Some 30\<rparr>))
           \<and> (truthy_number (upd_fontSize (no_updates\<lparr>upd_fontSize := Some 30\<rparr>))
              \<or> truthy_string (upd_fontFamily (no_updates\<lparr>upd_fontSize := Some 30\<rparr>))
              \<or> truthy_string (upd_label (no_updates\<lparr>upd_fontSize := Some 30\<rparr>)))"
    by (simp add: example_fields_def spread_def no_updates_def or_else_def truthy_number_def)
  have t2: "upd_autoWidth (no_updates\<lparr>upd_autoWidth := Some True\<rparr>) = Some True
         \<or> autoWidth (spread (example_fields ! 0) (no_updates\<lparr>upd_autoWidth := Some True\<rparr>))
           \<and> (truthy_number (upd_fontSize (no_updates\<lparr>upd_autoWidth := Some True\<rparr>))
              \<or> truthy_string (upd_fontFamily (no_updates\<lparr>upd_autoWidth := Some True\<rparr>))
              \<or> truthy_string (upd_label (no_updates\<lparr>upd_autoWidth := Some True\<rparr>)))"
    by simp
  have r: "at_index [ [''Name'' \<mapsto> ''Ann''] ] 0 = Some [''Name'' \<mapsto> ''Ann'']"
    "at_index ([] :: CertificateData list) 0 = None"
    by (simp_all add: at_index_def)
  have s1: "spread (example_fields ! 1) (no_updates\<lparr>upd_fontSize := Some 30\<rparr>)
            = (example_fields ! 1)\<lparr>fontSize := 30\<rparr>"
    and s2: "spread (example_fields ! 0) (no_updates\<lparr>upd_autoWidth := Some True\<rparr>)
            = (example_fields ! 0)\<lparr>autoWidth := True\<rparr>"
    by (simp_all add: example_fields_def spread_def no_updates_def or_else_def)
  show ?thesis
    using C3_updateField_recompute [OF a(1,2) refl t1, of example_measure "[]" 0]
      C3_updateField_recompute [OF a(3,4) refl t2, of example_measure "[ [''Name'' \<mapsto> ''Ann''] ]" 0]
      C3_updateField_recompute [OF a(3,4) refl t2, of example_measure "[]" 0]
    unfolding s1 s2 r
    by (simp add: example_fields_def row_text_def calculateTextWidth_def example_measure_def
        getDummyText_examples)
qed

text \<open>
  Outside the amended claim: a patch value that is falsy. Clearing the label of the
  auto-width field \<open>Course\<close> in FieldDesigner changes its placeholder text to
  \<open>Sample Text\<close>, whose measurement is 159, but the stored width stays 209, since
  \<open>updates.label\<close> is the empty string and the test \<open>updates.fontSize || updates.fontFamily
  || updates.label\<close> fails.
\<close>

lemma updateField_designer_cleared_label:
  "width (updateField_designer example_measure ''field-2'' (no_updates\<lparr>upd_label := Some []\<rparr>)
            example_fields ! 1) = 209
   \<and> getEffectiveWidth_designer example_measure
        (updateField_designer example_measure ''field-2'' (no_updates\<lparr>upd_label := Some []\<rparr>)
            example_fields ! 1) = 159"
  by (simp add: updateField_designer_def example_fields_def no_updates_def spread_def
      or_else_def truthy_number_def truthy_string_def getEffectiveWidth_designer_def
      calculateTextWidth_def example_measure_def getDummyText_examples)

section \<open>Batch export: theorems\<close>

lemma sanitize_examples:
  "sanitize ''Ann'' = ''Ann''"
  "sanitize ''Beatrice Montgomery'' = ''Beatrice_Montgomery''"
  by code_simp+

lemma exportLoop_end:
  "length data \<le> i \<Longrightarrow> exportLoop m template editableFields loads data i st = (st, True)"
  by (subst exportLoop.simps) simp

lemma exportLoop_pending:
  "i < length data \<Longrightarrow> \<not> loads i \<Longrightarrow>
   exportLoop m template editableFields loads data i st = (st, False)"
  by (subst exportLoop.simps) (simp add: generateCertificateImage_def)

lemma exportLoop_step:
  "i < length data \<Longrightarrow>
   generateCertificateImage m template editableFields (loads i) (data ! i) = Some blob \<Longrightarrow>
   exportLoop m template editableFields loads data i st =
   exportLoop m template editableFields loads data (Suc i)
     (st\<lparr>zip_files :=
           zip_file (sanitize (fileNameOf editableFields (data ! i) i) @ ''.png'') blob
             (zip_files st),
         generatedCount := Suc i\<rparr>)"
  by (subst exportLoop.simps) (simp add: Let_def)

lemma generateCertificateImage_loads:
  "\<exists>blob. generateCertificateImage m template editableFields True certificateData = Some blob"
  by (simp add: generateCertificateImage_def)

lemma export_two_rows:
  fixes f :: TextField and t :: Template
  defines "surface text \<equiv>
     \<lparr>surface_width = 1000, surface_height = 600,
      surface_image = (template_url t, 0, 0, 1000, 600),
      surface_texts = [\<lparr>ft_font = (24, fontFamily f), ft_fillStyle = color f,
        ft_textAlign = AlignCenter, ft_text = text, ft_x = 250, ft_y = 128\<rparr>]\<rparr>"
  assumes "template_width t = 1000" and "template_height t = 600"
    and "label f = ''Name''" and "x f = 100" and "y f = 100" and "width f = 300"
    and "height f = 40" and "fontSize f = 24" and "align f = AlignCenter"
    and "\<not> autoWidth f"
  shows "generateAllCertificates m t [f] (\<lambda>i. True)
           [ [''Name'' \<mapsto> ''Ann''], [''Name'' \<mapsto> ''Beatrice Montgomery''] ]
         = \<lparr>isGenerating = False, generatedCount = 2,
            zip_files = [(''Ann.png'', surface ''Ann''),
                         (''Beatrice_Montgomery.png'', surface ''Beatrice Montgomery'')],
            saved = Some ([(''Ann.png'', surface ''Ann''),
                           (''Beatrice_Montgomery.png'', surface ''Beatrice Montgomery'')],
                          ''certificates.zip''),
            settled = True\<rparr>"
proof -
  let ?data = "[ [''Name'' \<mapsto> ''Ann''], [''Name'' \<mapsto> ''Beatrice Montgomery''] ]"
  have g: "generateCertificateImage m t [f] True [''Name'' \<mapsto> caption] = Some (surface caption)"
    for caption
    using assms(2-)
    by (simp add: generateCertificateImage_def getEffectiveWidth_def row_text_def surface_def)
  have n: "fileNameOf [f] [''Name'' \<mapsto> ''Ann''] i = ''Ann''"
    "fileNameOf [f] [''Name'' \<mapsto> ''Beatrice Montgomery''] i = ''Beatrice Montgomery''" for i
    using assms(4) by (simp_all add: fileNameOf_def titleKey_def row_text_def)
  have "exportLoop m t [f] (\<lambda>i. True) ?data 0 st
        = (st\<lparr>zip_files := zip_file ''Beatrice_Montgomery.png'' (surface ''Beatrice Montgomery'')
              (zip_file ''Ann.png'' (surface ''Ann'') (zip_files st)),
            generatedCount := 2\<rparr>, True)" for st
    using exportLoop_step [of 0 ?data m t "[f]" "\<lambda>i. True" "surface ''Ann''" st]
      exportLoop_step [of 1 ?data m t "[f]" "\<lambda>i. True" "surface ''Beatrice Montgomery''"]
    by (simp add: g n sanitize_examples exportLoop_end)
  then show ?thesis
    by (simp add: generateAllCertificates_def)
qed

lemma exportLoop_keeps:
  "isGenerating (fst (exportLoop m template editableFields loads data i st)) = isGenerating st
   \<and> saved (fst (exportLoop m template editableFields loads data i st)) = saved st
   \<and> settled (fst (exportLoop m template editableFields loads data i st)) = settled st"
proof (induction m template editableFields loads data i st rule: exportLoop.induct)
  case (1 m template editableFields loads data i st)
  show ?case
  proof (cases "i < length data")
    case False
    then show ?thesis by (simp add: exportLoop_end)
  next
    case True
    show ?thesis
    proof (cases "generateCertificateImage m template editableFields (loads i) (data ! i)")
      case None
      then show ?thesis using True by (subst (1 2 3) exportLoop.simps) simp
    next
      case (Some blob)
      then show ?thesis
        using "1.IH" [OF True refl Some refl refl]
          exportLoop_step [where loads = loads and i = i and data = data and blob = blob
            and m = m and template = template and editableFields = editableFields and st = st,
            OF True Some]
        by simp
    qed
  qed
qed

lemma exportLoop_first_failure:
  assumes "j < length data" and "\<not> loads j" and "\<forall>k. i \<le> k \<and> k < j \<longrightarrow> loads k"
    and "i \<le> j"
  shows "snd (exportLoop m template editableFields loads data i st) = False
     \<and> generatedCount (fst (exportLoop m template editableFields loads data i st))
         = (if i = j then generatedCount st else j)
     \<and> exportLoop m template editableFields loads data i st
         = exportLoop m template editableFields loads (take (Suc j) data) i st
     \<and> zip_files (fst (exportLoop m template editableFields loads data i st))
         = zip_files (fst (exportLoop m template editableFields (\<lambda>k. True) (take j data) i st))"
  using assms(3,4)
proof (induction "j - i" arbitrary: i st)
  case 0
  then have "i = j" by simp
  then show ?case
    using assms(1,2) by (simp add: exportLoop_pending exportLoop_end)
next
  case (Suc n)
  then have lt: "i < j" and l: "loads i" by auto
  then have len: "i < length data" "i < length (take (Suc j) data)" "i < length (take j data)"
    using assms(1) by auto
  obtain blob where b:
    "generateCertificateImage m template editableFields True (data ! i) = Some blob"
    using generateCertificateImage_loads by blast
  have ih: "n = j - Suc i" "\<forall>k. Suc i \<le> k \<and> k < j \<longrightarrow> loads k" "Suc i \<le> j"
    using Suc.hyps(2) Suc.prems lt by auto
  have s1: "exportLoop m template editableFields loads data i st =
     exportLoop m template editableFields loads data (Suc i)
       (st\<lparr>zip_files :=
           zip_file (sanitize (fileNameOf editableFields (data ! i) i) @ ''.png'') blob
             (zip_files st), generatedCount := Suc i\<rparr>)"
    using exportLoop_step [OF len(1), of m template editableFields loads blob st] b l by simp
  have s2: "exportLoop m template editableFields loads (take (Suc j) data) i st =
     exportLoop m template editableFields loads (take (Suc j) data) (Suc i)
       (st\<lparr>zip_files :=
           zip_file (sanitize (fileNameOf editableFields (data ! i) i) @ ''.png'') blob
             (zip_files st), generatedCount := Suc i\<rparr>)"
    using exportLoop_step [OF len(2), of m template editableFields loads blob st] b l lt
    by simp
  have s3: "exportLoop m template editableFields (\<lambda>k. True) (take j data) i st =
     exportLoop m template editableFields (\<lambda>k. True) (take j data) (Suc i)
       (st\<lparr>zip_files :=
           zip_file (sanitize (fileNameOf editableFields (data ! i) i) @ ''.png'') blob
             (zip_files st), generatedCount := Suc i\<rparr>)"
    using exportLoop_step [OF len(3), of m template editableFields "\<lambda>k. True" blob st] b lt
    by simp
  show ?case
    using Suc.hyps(1) [OF ih, of "st\<lparr>zip_files :=
           zip_file (sanitize (fileNameOf editableFields (data ! i) i) @ ''.png'') blob
             (zip_files st), generatedCount := Suc i\<rparr>"] lt
    unfolding s1 s2 s3 by auto
qed

lemma exportLoop_all_load:
  assumes "\<forall>k. i \<le> k \<and> k < length data \<longrightarrow> loads k"
  shows "snd (exportLoop m template editableFields loads data i st) = True"
  using assms
proof (induction "length data - i" arbitrary: i st)
  case 0
  then show ?case by (simp add: exportLoop_end)
next
  case (Suc n)
  then have len: "i < length data" and l: "loads i" by auto
  obtain blob where b:
    "generateCertificateImage m template editableFields True (data ! i) = Some blob"
    using generateCertificateImage_loads by blast
  have s1: "exportLoop m template editableFields loads data i st =
     exportLoop m template editableFields loads data (Suc i)
       (st\<lparr>zip_files :=
           zip_file (sanitize (fileNameOf editableFields (data ! i) i) @ ''.png'') blob
             (zip_files st), generatedCount := Suc i\<rparr>)"
    using exportLoop_step [OF len, of m template editableFields loads blob st] b l by simp
  have "n = length data - Suc i" "\<forall>k. Suc i \<le> k \<and> k < length data \<longrightarrow> loads k"
    using Suc.hyps(2) Suc.prems by auto
  from Suc.hyps(1) [OF this] show ?case
    unfolding s1 by simp
qed

lemma exportLoop_two_rows:
  "exportLoop m template editableFields (\<lambda>i. True) [r0, r1] 0 st
   = (st\<lparr>zip_files :=
          zip_file (sanitize (fileNameOf editableFields r1 1) @ ''.png'')
            (the (generateCertificateImage m template editableFields True r1))
            (zip_file (sanitize (fileNameOf editableFields r0 0) @ ''.png'')
               (the (generateCertificateImage m template editableFields True r0))
               (zip_files st)),
        generatedCount := 2\<rparr>, True)"
proof -
  obtain b0 b1 where b:
    "generateCertificateImage m template editableFields True r0 = Some b0"
    "generateCertificateImage m template editableFields True r1 = Some b1"
    using generateCertificateImage_loads by meson
  show ?thesis
    using exportLoop_step [of 0 "[r0, r1]" m template editableFields "\<lambda>i. True" b0 st]
      exportLoop_step [of 1 "[r0, r1]" m template editableFields "\<lambda>i. True" b1]
    by (simp add: b exportLoop_end)
qed

lemma zip_file_names:
  "map fst (zip_file name blob entries) =
     (if name \<in> set (map fst entries) then map fst entries else map fst entries @ [name])"
  by (induction entries) auto

lemma exportLoop_names:
  assumes "\<forall>k. i \<le> k \<and> k < length data \<longrightarrow> loads k"
    and "distinct (map fst (zip_files st) @
           map (\<lambda>k. sanitize (fileNameOf editableFields (data ! k) k) @ ''.png'')
             [i..<length data])"
  shows "map fst (zip_files (fst (exportLoop m template editableFields loads data i st)))
         = map fst (zip_files st) @
           map (\<lambda>k. sanitize (fileNameOf editableFields (data ! k) k) @ ''.png'')
             [i..<length data]"
  using assms
proof (induction "length data - i" arbitrary: i st)
  case 0
  then show ?case by (simp add: exportLoop_end)
next
  case (Suc n)
  let ?name = "\<lambda>k. sanitize (fileNameOf editableFields (data ! k) k) @ ''.png''"
  from Suc have len: "i < length data" and l: "loads i" by auto
  obtain blob where b:
    "generateCertificateImage m template editableFields True (data ! i) = Some blob"
    using generateCertificateImage_loads by blast
  let ?st = "st\<lparr>zip_files := zip_file (?name i) blob (zip_files st), generatedCount := Suc i\<rparr>"
  have s1: "exportLoop m template editableFields loads data i st =
     exportLoop m template editableFields loads data (Suc i) ?st"
    using exportLoop_step [OF len, of m template editableFields loads blob st] b l by simp
  have u: "[i..<length data] = i # [Suc i..<length data]"
    using len by (simp add: upt_conv_Cons)
  have fresh: "?name i \<notin> set (map fst (zip_files st))"
    using Suc.prems(2) unfolding u by auto
  have names: "map fst (zip_files ?st) = map fst (zip_files st) @ [?name i]"
    using fresh by (simp add: zip_file_names)
  have d: "distinct (map fst (zip_files ?st) @ map ?name [Suc i..<length data])"
    using Suc.prems(2) unfolding names u by simp
  have "n = length data - Suc i" "\<forall>k. Suc i \<le> k \<and> k < length data \<longrightarrow> loads k"
    using Suc.hyps(2) Suc.prems(1) by auto
  from Suc.hyps(1) [OF this d] show ?case
    unfolding s1 names u by simp
qed

text \<open>
  What the export does keep of claim C7: when the template image loads for every row and
  the sanitized names of the rows are pairwise distinct, the export completes and the
  saved archive has exactly one entry per row, in the order of the rows, each named by
  the sanitized title (or \<open>certificate-\<close> and the ordinal) with the suffix \<open>.png\<close>.
\<close>

lemma export_distinct_names:
  assumes "distinct (map (\<lambda>k. sanitize (fileNameOf editableFields (data ! k) k) @ ''.png'')
             [0..<length data])"
  shows "\<exists>archive. saved (generateAllCertificates m template editableFields (\<lambda>k. True) data)
           = Some (archive, ''certificates.zip'')
     \<and> map fst archive
         = map (\<lambda>k. sanitize (fileNameOf editableFields (data ! k) k) @ ''.png'')
             [0..<length data]
     \<and> length archive = length data"
proof -
  let ?st = "\<lparr>isGenerating = True, generatedCount = 0, zip_files = [], saved = None,
               settled = False\<rparr>"
  let ?r = "exportLoop m template editableFields (\<lambda>k. True) data 0 ?st"
  have c: "snd ?r = True"
    by (rule exportLoop_all_load) simp
  have n: "map fst (zip_files (fst ?r))
         = map (\<lambda>k. sanitize (fileNameOf editableFields (data ! k) k) @ ''.png'')
             [0..<length data]"
    using exportLoop_names [of 0 data "\<lambda>k. True" ?st editableFields m template] assms
    by simp
  then have "length (map fst (zip_files (fst ?r))) = length data"
    by simp
  then have l: "length (zip_files (fst ?r)) = length data"
    by simp
  show ?thesis
    using c n l by (simp add: generateAllCertificates_def split_beta Let_def)
qed

text \<open>
  Claim C7 at two rows that have the same title. Both rows are rendered
  (\<open>generatedCount\<close> is 2) and the export completes, but the archive that is saved has one
  entry, \<open>Ann.png\<close>, and it holds the certificate of the second row: the first row's
  certificate is gone.
\<close>

theorem C7_duplicate_titles:
  "generatedCount (generateAllCertificates example_measure example_template example_fields
       (\<lambda>i. True) [ [''Name'' \<mapsto> ''Ann'', ''Course'' \<mapsto> ''Maths''],
                    [''Name'' \<mapsto> ''Ann'', ''Course'' \<mapsto> ''Physics''] ]) = 2
   \<and> settled (generateAllCertificates example_measure example_template example_fields
       (\<lambda>i. True) [ [''Name'' \<mapsto> ''Ann'', ''Course'' \<mapsto> ''Maths''],
                    [''Name'' \<mapsto> ''Ann'', ''Course'' \<mapsto> ''Physics''] ])
   \<and> (\<exists>blob. saved (generateAllCertificates example_measure example_template example_fields
       (\<lambda>i. True) [ [''Name'' \<mapsto> ''Ann'', ''Course'' \<mapsto> ''Maths''],
                    [''Name'' \<mapsto> ''Ann'', ''Course'' \<mapsto> ''Physics''] ])
        = Some ([(''Ann.png'', blob)], ''certificates.zip'')
      \<and> map ft_text (surface_texts blob) = [''Ann'', ''Physics''])"
  by (simp add: generateAllCertificates_def exportLoop_two_rows fileNameOf_def titleKey_def
      example_fields_def row_text_def sanitize_examples generateCertificateImage_def)

text \<open>
  Claim C8, as stated, with the field as \<open>addField\<close> makes it (font Arial, colour black):
  the anchor of \<open>Ann\<close> in the first entry is at \<open>y = 128\<close>, which is
  \<open>100 + 40 / 2 + 24 / 3\<close>, not at \<open>y = 108\<close>.
\<close>

theorem C8_counterexample:
  "map (\<lambda>entry. map (\<lambda>call. (ft_text call, ft_x call, ft_y call)) (surface_texts (snd entry)))
     (zip_files (generateAllCertificates example_measure example_template [example_fields ! 0]
        (\<lambda>i. True) [ [''Name'' \<mapsto> ''Ann''], [''Name'' \<mapsto> ''Beatrice Montgomery''] ]))
   = [ [(''Ann'', 250, 128)], [(''Beatrice Montgomery'', 250, 128)] ]
   \<and> (128 :: real) \<noteq> 108"
  using export_two_rows [of example_template "example_fields ! 0" example_measure]
  by (simp add: example_fields_def example_template_def)

text \<open>
  Claim C8, amended. For a template of 1000 by 600, the one field \<open>{label: "Name", x: 100,
  y: 100, width: 300, height: 40, fontSize: 24, align: 'center', autoWidth: false}\<close> (any
  id, font family and colour) and the rows \<open>[{Name: "Ann"}, {Name: "Beatrice
  Montgomery"}]\<close>, the export, when the template image loads, saves an archive of exactly
  two entries, \<open>Ann.png\<close> and \<open>Beatrice_Montgomery.png\<close>, each a surface of 1000 by 600 with
  the template drawn over all of it and the row's value anchored at \<open>x = 250\<close>,
  \<open>y = 128\<close>.
\<close>

theorem C8_export_example:
  "generateAllCertificates m
     \<lparr>template_url = url, template_width = 1000, template_height = 600\<rparr>
     [\<lparr>id_field = fid, label = ''Name'', x = 100, y = 100, width = 300, height = 40,
       fontSize = 24, fontFamily = family, color = colour, align = AlignCenter,
       autoWidth = False\<rparr>]
     (\<lambda>i. True) [ [''Name'' \<mapsto> ''Ann''], [''Name'' \<mapsto> ''Beatrice Montgomery''] ]
   = \<lparr>isGenerating = False, generatedCount = 2,
      zip_files =
        [(''Ann.png'',
          \<lparr>surface_width = 1000, surface_height = 600,
           surface_image = (url, 0, 0, 1000, 600),
           surface_texts = [\<lparr>ft_font = (24, family), ft_fillStyle = colour,
             ft_textAlign = AlignCenter, ft_text = ''Ann'', ft_x = 250, ft_y = 128\<rparr>]\<rparr>),
         (''Beatrice_Montgomery.png'',
          \<lparr>surface_width = 1000, surface_height = 600,
           surface_image = (url, 0, 0, 1000, 600),
           surface_texts = [\<lparr>ft_font = (24, family), ft_fillStyle = colour,
             ft_textAlign = AlignCenter, ft_text = ''Beatrice Montgomery'', ft_x = 250,
             ft_y = 128\<rparr>]\<rparr>)],
      saved = Some
        ([(''Ann.png'',
           \<lparr>surface_width = 1000, surface_height = 600,
            surface_image = (url, 0, 0, 1000, 600),
            surface_texts = [\<lparr>ft_font = (24, family), ft_fillStyle = colour,
              ft_textAlign = AlignCenter, ft_text = ''Ann'', ft_x = 250, ft_y = 128\<rparr>]\<rparr>),
          (''Beatrice_Montgomery.png'',
           \<lparr>surface_width = 1000, surface_height = 600,
            surface_image = (url, 0, 0, 1000, 600),
            surface_texts = [\<lparr>ft_font = (24, family), ft_fillStyle = colour,
              ft_textAlign = AlignCenter, ft_text = ''Beatrice Montgomery'', ft_x = 250,
              ft_y = 128\<rparr>]\<rparr>)],
         ''certificates.zip''),
      settled = True\<rparr>"
  using export_two_rows [of "\<lparr>template_url = url, template_width = 1000, template_height = 600\<rparr>"
      "\<lparr>id_field = fid, label = ''Name'', x = 100, y = 100, width = 300, height = 40,
       fontSize = 24, fontFamily = family, color = colour, align = AlignCenter,
       autoWidth = False\<rparr>" m]
  by simp

text \<open>
  Claim C9, as stated, at three rows where the template image does not load for the second
  one: the export stays in its running state (\<open>isGenerating\<close>), its promise never settles,
  and nothing is saved; the progress counter stays at 1. The run is not aborted and
  reports nothing, so no caller learns that a row failed or which.
\<close>

theorem C9_counterexample:
  "isGenerating (generateAllCertificates example_measure example_template example_fields
       (\<lambda>i. i \<noteq> 1) [ [''Name'' \<mapsto> ''Ann''], [''Name'' \<mapsto> ''Bob''], [''Name'' \<mapsto> ''Cy''] ])
   \<and> \<not> settled (generateAllCertificates example_measure example_template example_fields
       (\<lambda>i. i \<noteq> 1) [ [''Name'' \<mapsto> ''Ann''], [''Name'' \<mapsto> ''Bob''], [''Name'' \<mapsto> ''Cy''] ])
   \<and> saved (generateAllCertificates example_measure example_template example_fields
       (\<lambda>i. i \<noteq> 1) [ [''Name'' \<mapsto> ''Ann''], [''Name'' \<mapsto> ''Bob''], [''Name'' \<mapsto> ''Cy''] ])
       = None
   \<and> generatedCount (generateAllCertificates example_measure example_template example_fields
       (\<lambda>i. i \<noteq> 1) [ [''Name'' \<mapsto> ''Ann''], [''Name'' \<mapsto> ''Bob''], [''Name'' \<mapsto> ''Cy''] ])
       = 1"
proof -
  let ?data = "[ [''Name'' \<mapsto> ''Ann''], [''Name'' \<mapsto> ''Bob''], [''Name'' \<mapsto> ''Cy''] ]"
  obtain blob where b: "generateCertificateImage example_measure example_template
      example_fields True (?data ! 0) = Some blob"
    using generateCertificateImage_loads by blast
  have "exportLoop example_measure example_template example_fields (\<lambda>i. i \<noteq> 1) ?data 0 st
        = (st\<lparr>zip_files :=
               zip_file (sanitize (fileNameOf example_fields (?data ! 0) 0) @ ''.png'') blob
                 (zip_files st), generatedCount := 1\<rparr>, False)" for st
    using exportLoop_step [of 0 ?data example_measure example_template example_fields
        "\<lambda>i. i \<noteq> 1" blob st] b
      exportLoop_pending [of 1 ?data "\<lambda>i. i \<noteq> 1" example_measure example_template
        example_fields]
    by simp
  then show ?thesis
    by (simp add: generateAllCertificates_def)
qed

text \<open>
  Claim C9, amended. If the template image fails to load for row \<open>j\<close> and loads for the
  rows before it, the export never completes: its promise stays pending, the component
  stays in its running state, nothing is saved, and the progress counter stays at \<open>j\<close>.
  The rows after \<open>j\<close> play no part (the run is the same as on the rows up to \<open>j\<close>), and the
  archive in memory holds what the rows before \<open>j\<close> put there. Nothing is reported to the
  caller.
\<close>

theorem C9_export_first_failure:
  assumes "j < length data" and "\<not> loads j" and "\<forall>k < j. loads k"
  shows "\<not> settled (generateAllCertificates m template editableFields loads data)
     \<and> isGenerating (generateAllCertificates m template editableFields loads data)
     \<and> saved (generateAllCertificates m template editableFields loads data) = None
     \<and> generatedCount (generateAllCertificates m template editableFields loads data) = j
     \<and> generateAllCertificates m template editableFields loads data
         = generateAllCertificates m template editableFields loads (take (Suc j) data)
     \<and> zip_files (generateAllCertificates m template editableFields loads data)
         = zip_files (generateAllCertificates m template editableFields (\<lambda>k. True)
             (take j data))"
proof -
  let ?st = "\<lparr>isGenerating = True, generatedCount = 0, zip_files = [], saved = None,
               settled = False\<rparr>"
  let ?r = "exportLoop m template editableFields loads data 0 ?st"
  have ff: "snd ?r = False
     \<and> generatedCount (fst ?r) = (if 0 = j then generatedCount ?st else j)
     \<and> ?r = exportLoop m template editableFields loads (take (Suc j) data) 0 ?st
     \<and> zip_files (fst ?r)
       = zip_files (fst (exportLoop m template editableFields (\<lambda>k. True) (take j data) 0 ?st))"
    by (rule exportLoop_first_failure) (use assms in auto)
  have f1: "snd ?r = False"
    and f3: "?r = exportLoop m template editableFields loads (take (Suc j) data) 0 ?st"
    and f4: "zip_files (fst ?r)
       = zip_files (fst (exportLoop m template editableFields (\<lambda>k. True) (take j data) 0 ?st))"
    using ff by blast+
  have "generatedCount (fst ?r) = (if 0 = j then generatedCount ?st else j)"
    using ff by blast
  then have f2: "generatedCount (fst ?r) = j"
    by (cases "j = 0") simp_all
  have k: "isGenerating (fst ?r)" "saved (fst ?r) = None" "\<not> settled (fst ?r)"
    using exportLoop_keeps [of m template editableFields loads data 0 ?st] by simp_all
  have c: "snd (exportLoop m template editableFields (\<lambda>k. True) (take j data) 0 ?st) = True"
    by (rule exportLoop_all_load) simp
  have r: "generateAllCertificates m template editableFields loads data = fst ?r"
    using f1 by (simp add: generateAllCertificates_def split_beta Let_def)
  have r': "generateAllCertificates m template editableFields loads (take (Suc j) data) = fst ?r"
    using f1 f3 by (simp add: generateAllCertificates_def split_beta Let_def)
  have z: "zip_files (generateAllCertificates m template editableFields (\<lambda>k. True) (take j data))
     = zip_files (fst (exportLoop m template editableFields (\<lambda>k. True) (take j data) 0 ?st))"
    using c by (simp add: generateAllCertificates_def split_beta Let_def)
  show ?thesis
    unfolding r r' z using f2 f4 k by simp
qed

theorem C9_export_first_failure_witness:
  "\<not> settled (generateAllCertificates example_measure example_template example_fields
       (\<lambda>i. i \<noteq> 2) [ [''Name'' \<mapsto> ''Ann''], [''Name'' \<mapsto> ''Bob''], [''Name'' \<mapsto> ''Cy''] ])
   \<and> generatedCount (generateAllCertificates example_measure example_template example_fields
       (\<lambda>i. i \<noteq> 2) [ [''Name'' \<mapsto> ''Ann''], [''Name'' \<mapsto> ''Bob''], [''Name'' \<mapsto> ''Cy''] ])
       = 2"
proof -
  show ?thesis
    using C9_export_first_failure [where loads = "\<lambda>i. i \<noteq> 2" and j = 2
        and data = "[ [''Name'' \<mapsto> ''Ann''], [''Name'' \<mapsto> ''Bob''], [''Name'' \<mapsto> ''Cy''] ]"
        and m = example_measure and template = example_template
        and editableFields = example_fields]
    by simp
qed

end
